theory Spec2Isabelle
  imports Main
begin

section \<open>Data model\<close>

text \<open>
  The pool engine of \<^verbatim>\<open>lib/managers/base.js\<close> (class \<^verbatim>\<open>BaseServerlessManager\<close>) and
  its subclass \<^verbatim>\<open>ProcessManager\<close> of \<^verbatim>\<open>lib/managers/process.js\<close>.

  A pooled resource is the object \<^verbatim>\<open>{ name, port, process, createdAt, lastUsed }\<close> built by
  \<^verbatim>\<open>createProcess\<close>. Of the child process only the \<^verbatim>\<open>killed\<close> flag is read by the
  engine; a handle without a \<^verbatim>\<open>process\<close> field (as the tests build them) has
  \<open>process = None\<close>. Times are \<^verbatim>\<open>Date.now()\<close> values: milliseconds since the epoch,
  natural numbers. Sizes and counters are natural numbers.
\<close>

datatype child_process = ChildProcess (killed: bool)

record resourceInfo =
  name :: string
  port :: nat
  process :: "child_process option"
  createdAt :: nat
  lastUsed :: nat

record metrics_rec =
  requests :: nat
  hits :: nat
  misses :: nat
  additions :: nat
  evictions :: nat
  removals :: nat

text \<open>
  The manager object. The first nine fields are the fields the constructor sets. The last
  five record what the object does to its surroundings, so that claims about them can be
  stated: how many timers \<^verbatim>\<open>setInterval\<close> has created, whether the timer held in
  \<open>watcherInterval\<close> has been cleared is visible as \<open>watcherInterval = None\<close>, whether the
  manager's signal listeners are registered on \<^verbatim>\<open>process\<close>, the names of the handles
  \<^verbatim>\<open>terminateResource\<close> was called on (in call order), the number of calls of the
  \<^verbatim>\<open>onShutdown\<close> hook, and the number of calls of \<^verbatim>\<open>createProcess\<close>.
\<close>

record manager =
  maxPoolSize :: nat
  poolCheckInterval :: nat
  shutdownTimeout :: nat
  pool :: "resourceInfo list"
  lastRequestTime :: nat
  watcherStarted :: bool
  watcherInterval :: "nat option"
  isShuttingDown :: bool
  metrics :: metrics_rec
  timersCreated :: nat
  signalHandlers :: bool
  terminated :: "string list"
  onShutdownCalls :: nat
  createCalls :: nat

text \<open>
  The options object of the constructor. A missing key is \<open>None\<close>. \<open>opt_minPoolSize\<close> is
  a key the tests pass (\<^verbatim>\<open>test/prewarming.test.js\<close>); the constructor does not read it.
\<close>

record options =
  opt_maxPoolSize :: "nat option"
  opt_poolCheckInterval :: "nat option"
  opt_shutdownTimeout :: "nat option"
  opt_minPoolSize :: "nat option"

text \<open>JavaScript's \<^verbatim>\<open>v || d\<close> on a number that may be missing: \<^verbatim>\<open>undefined\<close> and \<^verbatim>\<open>0\<close> are falsy.\<close>

definition js_or :: "nat option \<Rightarrow> nat \<Rightarrow> nat" where
  "js_or v d = (case v of None \<Rightarrow> d | Some n \<Rightarrow> if n = 0 then d else n)"

definition zero_metrics :: metrics_rec where
  "zero_metrics =
     \<lparr>requests = 0, hits = 0, misses = 0, additions = 0, evictions = 0, removals = 0\<rparr>"

text \<open>\<^verbatim>\<open>constructor(options = {})\<close> of \<^verbatim>\<open>BaseServerlessManager\<close>, run at time \<open>now\<close>.\<close>

definition BaseServerlessManager :: "options \<Rightarrow> nat \<Rightarrow> manager" where
  "BaseServerlessManager opts now =
     \<lparr>maxPoolSize = js_or (opt_maxPoolSize opts) 3,
      poolCheckInterval = js_or (opt_poolCheckInterval opts) 10000,
      shutdownTimeout = js_or (opt_shutdownTimeout opts) 10000,
      pool = [],
      lastRequestTime = now,
      watcherStarted = False,
      watcherInterval = None,
      isShuttingDown = False,
      metrics = zero_metrics,
      timersCreated = 0,
      signalHandlers = True,
      terminated = [],
      onShutdownCalls = 0,
      createCalls = 0\<rparr>"

text \<open>
  \<^verbatim>\<open>constructor\<close> of \<^verbatim>\<open>ProcessManager\<close>: \<^verbatim>\<open>super(options)\<close>, then
  \<^verbatim>\<open>this.shutdownTimeout = options.shutdownTimeout || 5000\<close>. (\<^verbatim>\<open>processTimeout\<close> is
  only read inside \<^verbatim>\<open>createProcess\<close>, whose outcome is an input of the model.)
\<close>

definition ProcessManager :: "options \<Rightarrow> nat \<Rightarrow> manager" where
  "ProcessManager opts now =
     (BaseServerlessManager opts now)\<lparr>shutdownTimeout := js_or (opt_shutdownTimeout opts) 5000\<rparr>"

section \<open>Pool operations of the base class\<close>

definition updateLastRequestTime :: "nat \<Rightarrow> manager \<Rightarrow> manager" where
  "updateLastRequestTime now s = s\<lparr>lastRequestTime := now\<rparr>"

definition getPoolSize :: "manager \<Rightarrow> nat" where
  "getPoolSize s = length (pool s)"

definition canCreateNewResource :: "manager \<Rightarrow> bool" where
  "canCreateNewResource s = (length (pool s) < maxPoolSize s)"

definition clearPool :: "nat \<Rightarrow> manager \<Rightarrow> manager" where
  "clearPool now s = updateLastRequestTime now (s\<lparr>pool := []\<rparr>)"

text \<open>\<^verbatim>\<open>addToPool(resourceInfo)\<close>: the new state and the returned boolean.\<close>

definition addToPool :: "resourceInfo \<Rightarrow> manager \<Rightarrow> manager \<times> bool" where
  "addToPool resourceInfo s =
     (if length (pool s) < maxPoolSize s
      then (s\<lparr>pool := pool s @ [resourceInfo],
              metrics := (metrics s)\<lparr>additions := additions (metrics s) + 1\<rparr>\<rparr>, True)
      else (s, False))"

text \<open>\<^verbatim>\<open>Array.prototype.findIndex\<close> with the test \<^verbatim>\<open>r.name === resourceName\<close>; \<open>None\<close> is \<^verbatim>\<open>-1\<close>.\<close>

fun findIndex :: "string \<Rightarrow> resourceInfo list \<Rightarrow> nat option" where
  "findIndex resourceName [] = None"
| "findIndex resourceName (r # rs) =
     (if name r = resourceName then Some 0
      else (case findIndex resourceName rs of None \<Rightarrow> None | Some i \<Rightarrow> Some (Suc i)))"

text \<open>\<^verbatim>\<open>this.pool.splice(index, 1)\<close>: the list without the element at \<open>index\<close>.\<close>

definition splice1 :: "nat \<Rightarrow> 'a list \<Rightarrow> 'a list" where
  "splice1 index xs = take index xs @ drop (Suc index) xs"

text \<open>\<^verbatim>\<open>removeFromPool(resourceName)\<close>: the new state and the removed handle (\<open>None\<close> is \<^verbatim>\<open>null\<close>).\<close>

definition removeFromPool :: "string \<Rightarrow> manager \<Rightarrow> manager \<times> resourceInfo option" where
  "removeFromPool resourceName s =
     (case findIndex resourceName (pool s) of
        Some index \<Rightarrow>
          (s\<lparr>pool := splice1 index (pool s),
             metrics := (metrics s)\<lparr>removals := removals (metrics s) + 1\<rparr>\<rparr>,
           Some (pool s ! index))
      | None \<Rightarrow> (s, None))"

text \<open>
  \<^verbatim>\<open>selectFromPool()\<close>, with \<open>now\<close> the value of \<^verbatim>\<open>Date.now()\<close>. The index is
  \<^verbatim>\<open>Math.floor(Date.now() / 1000) % this.pool.length\<close>; it is only computed on a non-empty
  pool.
\<close>

definition resourceIndex :: "nat \<Rightarrow> manager \<Rightarrow> nat" where
  "resourceIndex now s = (now div 1000) mod length (pool s)"

definition selectFromPool :: "nat \<Rightarrow> manager \<Rightarrow> manager \<times> resourceInfo option" where
  "selectFromPool now s =
     (let s1 = s\<lparr>metrics := (metrics s)\<lparr>requests := requests (metrics s) + 1\<rparr>\<rparr>
      in if length (pool s1) = 0
         then (s1\<lparr>metrics := (metrics s1)\<lparr>misses := misses (metrics s1) + 1\<rparr>\<rparr>, None)
         else (s1\<lparr>metrics := (metrics s1)\<lparr>hits := hits (metrics s1) + 1\<rparr>\<rparr>,
               Some (pool s1 ! resourceIndex now s1)))"

section \<open>Timers, termination and shutdown\<close>

text \<open>
  \<^verbatim>\<open>poolWatcher()\<close>: when no timer is held, \<^verbatim>\<open>setInterval\<close> creates one (identified by its
  creation number) and stores it in \<open>watcherInterval\<close>.
\<close>

definition poolWatcher :: "manager \<Rightarrow> manager" where
  "poolWatcher s =
     (if watcherInterval s \<noteq> None then s
      else s\<lparr>watcherInterval := Some (timersCreated s),
             timersCreated := timersCreated s + 1\<rparr>)"

definition startPoolWatcher :: "manager \<Rightarrow> manager" where
  "startPoolWatcher s =
     (if \<not> watcherStarted s then poolWatcher (s\<lparr>watcherStarted := True\<rparr>) else s)"

definition stopPoolWatcher :: "manager \<Rightarrow> manager" where
  "stopPoolWatcher s =
     (if watcherInterval s \<noteq> None then s\<lparr>watcherInterval := None\<rparr> else s)"

text \<open>
  \<^verbatim>\<open>terminateResource(resourceInfo)\<close> is abstract in the base class; \<^verbatim>\<open>ProcessManager\<close> kills
  the child and catches every error. For the engine the call is an effect outside the pool:
  the model records the name of the handle.
\<close>

definition terminateResource :: "resourceInfo \<Rightarrow> manager \<Rightarrow> manager" where
  "terminateResource resourceInfo s = s\<lparr>terminated := terminated s @ [name resourceInfo]\<rparr>"

text \<open>
  The callback \<^verbatim>\<open>poolWatcher\<close> hands to \<^verbatim>\<open>setInterval\<close>, run at time \<open>now\<close>.
  \<^verbatim>\<open>this.pool.shift()\<close> takes the first element; handles are objects, so the test
  \<^verbatim>\<open>if (resourceToRemove)\<close> succeeds whenever the pool was non-empty.
\<close>

definition watcherTick :: "nat \<Rightarrow> manager \<Rightarrow> manager" where
  "watcherTick now s =
     (if isShuttingDown s then s
      else if length (pool s) > 0
              \<and> int now - int (lastRequestTime s) > int (poolCheckInterval s)
      then (case pool s of
              [] \<Rightarrow> s
            | resourceToRemove # rest \<Rightarrow>
                terminateResource resourceToRemove
                  (s\<lparr>pool := rest,
                     metrics := (metrics s)\<lparr>evictions := evictions (metrics s) + 1\<rparr>\<rparr>))
      else s)"

text \<open>\<^verbatim>\<open>stopAllResources()\<close>: \<^verbatim>\<open>terminateResource\<close> on every handle in pool order, then \<^verbatim>\<open>clearPool\<close>.\<close>

definition stopAllResources :: "nat \<Rightarrow> manager \<Rightarrow> manager" where
  "stopAllResources now s =
     (if length (pool s) = 0 then s
      else clearPool now (fold terminateResource (pool s) s))"

text \<open>The hook \<^verbatim>\<open>onShutdown()\<close>: its body is the subclass's; the model counts the calls.\<close>

definition onShutdown :: "manager \<Rightarrow> manager" where
  "onShutdown s = s\<lparr>onShutdownCalls := onShutdownCalls s + 1\<rparr>"

text \<open>\<^verbatim>\<open>process.removeAllListeners\<close> for \<^verbatim>\<open>SIGINT\<close>, \<^verbatim>\<open>SIGTERM\<close> and \<^verbatim>\<open>beforeExit\<close>.\<close>

definition removeAllListeners :: "manager \<Rightarrow> manager" where
  "removeAllListeners s = s\<lparr>signalHandlers := False\<rparr>"

text \<open>\<^verbatim>\<open>shutdown()\<close> of \<^verbatim>\<open>BaseServerlessManager\<close> (base.js, lines 293--316).\<close>

definition shutdown :: "nat \<Rightarrow> manager \<Rightarrow> manager" where
  "shutdown now s =
     (if isShuttingDown s then s
      else onShutdown
             (removeAllListeners
               (stopAllResources now
                 (stopPoolWatcher (s\<lparr>isShuttingDown := True\<rparr>)))))"

text \<open>
  \<^verbatim>\<open>stopAllProcesses()\<close> and the overriding \<^verbatim>\<open>shutdown()\<close> of \<^verbatim>\<open>ProcessManager\<close>
  (process.js, lines 215--235 and 260--281).
\<close>

definition stopAllProcesses :: "nat \<Rightarrow> manager \<Rightarrow> manager" where
  "stopAllProcesses now s =
     (if length (pool s) = 0 then s
      else clearPool now (fold terminateResource (pool s) s))"

definition ProcessManager_shutdown :: "nat \<Rightarrow> manager \<Rightarrow> manager" where
  "ProcessManager_shutdown now s =
     (if isShuttingDown s then s
      else removeAllListeners
             (stopAllProcesses now
               (stopPoolWatcher (s\<lparr>isShuttingDown := True\<rparr>))))"

section \<open>Health check\<close>

text \<open>
  The loop \<^verbatim>\<open>for (let i = this.pool.length - 1; i >= 0; i--)\<close> of \<^verbatim>\<open>healthCheck\<close>. The first
  argument is the liveness probe, the second is \<open>i + 1\<close>; the result is the pool and
  \<^verbatim>\<open>deadResources\<close> after the loop. The pool is only shortened at positions \<open>\<ge> i\<close>, so
  \<open>pool ! i\<close> is always in range.
\<close>

fun healthCheck_loop ::
  "(resourceInfo \<Rightarrow> bool) \<Rightarrow> nat \<Rightarrow> resourceInfo list \<Rightarrow> resourceInfo list
     \<Rightarrow> resourceInfo list \<times> resourceInfo list" where
  "healthCheck_loop isAlive 0 p deadResources = (p, deadResources)"
| "healthCheck_loop isAlive (Suc i) p deadResources =
     (if isAlive (p ! i) then healthCheck_loop isAlive i p deadResources
      else healthCheck_loop isAlive i (splice1 i p) (deadResources @ [p ! i]))"

record healthReport =
  totalResources :: nat
  deadResourcesRemoved :: nat
  healthy :: bool

definition healthCheck :: "(resourceInfo \<Rightarrow> bool) \<Rightarrow> manager \<Rightarrow> manager \<times> healthReport" where
  "healthCheck isAlive s =
     (case healthCheck_loop isAlive (length (pool s)) (pool s) [] of
        (p, deadResources) \<Rightarrow>
          (s\<lparr>pool := p\<rparr>,
           \<lparr>totalResources = length p,
            deadResourcesRemoved = length deadResources,
            healthy = (length p > 0 \<or> \<not> isShuttingDown s)\<rparr>))"

text \<open>\<^verbatim>\<open>isResourceAlive\<close> of \<^verbatim>\<open>ProcessManager\<close>: \<^verbatim>\<open>processInfo.process && !processInfo.process.killed\<close>.\<close>

definition isResourceAlive :: "resourceInfo \<Rightarrow> bool" where
  "isResourceAlive processInfo =
     (case process processInfo of None \<Rightarrow> False | Some childProcess \<Rightarrow> \<not> killed childProcess)"

section \<open>Metrics exposition\<close>

text \<open>Template-literal rendering of a counter: its decimal digits.\<close>

definition digit_char :: "nat \<Rightarrow> char" where
  "digit_char d = ''0123456789'' ! d"

fun string_of_nat :: "nat \<Rightarrow> string" where
  "string_of_nat n =
     (if n < 10 then [digit_char n]
      else string_of_nat (n div 10) @ [digit_char (n mod 10)])"

declare string_of_nat.simps [simp del]

text \<open>\<^verbatim>\<open>lines.join('\n')\<close>.\<close>

fun join_lines :: "string list \<Rightarrow> string" where
  "join_lines [] = []"
| "join_lines [l] = l"
| "join_lines (l # ls) = l @ [CHR 0x0A] @ join_lines ls"

text \<open>The helper \<^verbatim>\<open>addMetric\<close>: the three lines it pushes.\<close>

definition addMetric :: "string \<Rightarrow> string \<Rightarrow> string \<Rightarrow> string \<Rightarrow> nat \<Rightarrow> string list" where
  "addMetric labels nm help type val =
     (let metricName = ''serverless_manager_pool'' @ ''_'' @ nm
      in [''# HELP '' @ metricName @ '' '' @ help,
          ''# TYPE '' @ metricName @ '' '' @ type,
          metricName @ labels @ '' '' @ string_of_nat val])"

text \<open>
  \<^verbatim>\<open>getPrometheusMetrics()\<close>. \<open>type\<close> is the result of \<^verbatim>\<open>getResourceType()\<close> and
  \<open>constructor_name\<close> is \<^verbatim>\<open>this.constructor.name\<close>; both belong to the subclass.
\<close>

definition metric_labels :: "string \<Rightarrow> string \<Rightarrow> string" where
  "metric_labels type constructor_name =
     ''{resource_type='' @ [CHR 0x22] @ type @ [CHR 0x22] @ '',manager='' @ [CHR 0x22]
       @ constructor_name @ [CHR 0x22] @ ''}''"

definition metric_lines :: "string \<Rightarrow> string \<Rightarrow> manager \<Rightarrow> string list" where
  "metric_lines type constructor_name s =
     (let labels = metric_labels type constructor_name
      in addMetric labels ''requests_total'' ''Total number of pool acquisition requests''
           ''counter'' (requests (metrics s))
       @ addMetric labels ''hits_total'' ''Total number of successful pool hits''
           ''counter'' (hits (metrics s))
       @ addMetric labels ''misses_total'' ''Total number of pool misses''
           ''counter'' (misses (metrics s))
       @ addMetric labels ''additions_total'' ''Total number of resources added to pool''
           ''counter'' (additions (metrics s))
       @ addMetric labels ''evictions_total'' ''Total number of idle resources evicted''
           ''counter'' (evictions (metrics s))
       @ addMetric labels ''removals_total'' ''Total number of resources removed from pool''
           ''counter'' (removals (metrics s))
       @ addMetric labels ''size'' ''Current number of resources in pool''
           ''gauge'' (length (pool s)))"

definition getPrometheusMetrics :: "string \<Rightarrow> string \<Rightarrow> manager \<Rightarrow> string" where
  "getPrometheusMetrics type constructor_name s =
     join_lines (metric_lines type constructor_name s)"

section \<open>Acquisition in ProcessManager\<close>

text \<open>The three errors \<^verbatim>\<open>getOrCreateProcessInPool\<close> throws, by their messages:
  \<^verbatim>\<open>'ProcessManager is shutting down'\<close>, \<^verbatim>\<open>'Script path is required'\<close>,
  \<^verbatim>\<open>'No processes available in pool'\<close>.\<close>

datatype error = ShuttingDown | BadConfig | NoResource

text \<open>
  What the surroundings answer during one call: the clock at each \<^verbatim>\<open>Date.now()\<close>, the
  outcome of \<^verbatim>\<open>getAvailablePort()\<close> (\<open>None\<close>: rejected) and the outcome of
  \<^verbatim>\<open>createProcess\<close> (\<open>None\<close>: rejected by spawn error or timeout; \<open>Some (c, u)\<close>: resolved
  on first stdout, with the clock values stored in \<^verbatim>\<open>createdAt\<close> and \<^verbatim>\<open>lastUsed\<close>).
\<close>

record acquire_env =
  t_request :: nat
  port_result :: "nat option"
  t_name :: nat
  create_result :: "(nat \<times> nat) option"
  t_select :: nat
  t_used :: nat

text \<open>\<^verbatim>\<open>!scriptPath\<close>: a missing and an empty path are falsy.\<close>

definition falsy_path :: "string option \<Rightarrow> bool" where
  "falsy_path scriptPath = (case scriptPath of None \<Rightarrow> True | Some p \<Rightarrow> p = [])"

definition processName :: "nat \<Rightarrow> nat \<Rightarrow> string" where
  "processName prt now = ''process-'' @ string_of_nat prt @ ''-'' @ string_of_nat now"

text \<open>\<^verbatim>\<open>createProcess(scriptPath, port, processName)\<close> with its outcome given: the call is
  counted, and a resolved promise carries the \<^verbatim>\<open>processInfo\<close> object of a child not killed.\<close>

definition createProcess ::
  "nat \<Rightarrow> string \<Rightarrow> (nat \<times> nat) option \<Rightarrow> manager \<Rightarrow> manager \<times> resourceInfo option" where
  "createProcess prt pname outcome s =
     (s\<lparr>createCalls := createCalls s + 1\<rparr>,
      case outcome of
        None \<Rightarrow> None
      | Some (c, u) \<Rightarrow>
          Some \<lparr>name = pname, port = prt, process = Some (ChildProcess False),
                createdAt = c, lastUsed = u\<rparr>)"

text \<open>Lines 80--89: the two guards, \<^verbatim>\<open>updateLastRequestTime\<close>, \<^verbatim>\<open>startPoolWatcher\<close>.\<close>

definition acquire_enter :: "string option \<Rightarrow> nat \<Rightarrow> manager \<Rightarrow> error + manager" where
  "acquire_enter scriptPath now s =
     (if isShuttingDown s then Inl ShuttingDown
      else if falsy_path scriptPath then Inl BadConfig
      else Inr (startPoolWatcher (updateLastRequestTime now s)))"

text \<open>
  Lines 98--106: what follows \<^verbatim>\<open>await this.createProcess(...)\<close> once it has resolved with
  \<open>processInfo\<close>: the second check of the pool size, then admission, or termination of the
  new process. \<open>Some\<close> is the early \<^verbatim>\<open>return processInfo\<close>.
\<close>

definition afterCreate :: "resourceInfo \<Rightarrow> manager \<Rightarrow> manager \<times> resourceInfo option" where
  "afterCreate processInfo s =
     (if canCreateNewResource s then (fst (addToPool processInfo s), Some processInfo)
      else (terminateResource processInfo s, None))"

text \<open>Lines 93--110: the \<^verbatim>\<open>try\<close> block; every rejection is caught and falls through.\<close>

definition tryCreate :: "acquire_env \<Rightarrow> manager \<Rightarrow> manager \<times> resourceInfo option" where
  "tryCreate env s =
     (case port_result env of
        None \<Rightarrow> (s, None)
      | Some prt \<Rightarrow>
          (case createProcess prt (processName prt (t_name env)) (create_result env) s of
             (s1, None) \<Rightarrow> (s1, None)
           | (s1, Some processInfo) \<Rightarrow> afterCreate processInfo s1))"

text \<open>
  Lines 113--130: selection from the pool. \<^verbatim>\<open>selectedProcess\<close> is the object in the pool, so
  \<^verbatim>\<open>selectedProcess.lastUsed = Date.now()\<close> updates the pool entry at the selected index.
\<close>

definition selectExisting :: "nat \<Rightarrow> nat \<Rightarrow> manager \<Rightarrow> manager \<times> (error + resourceInfo)" where
  "selectExisting t_sel t_use s =
     (case selectFromPool t_sel s of
        (s1, None) \<Rightarrow> (s1, Inl NoResource)
      | (s1, Some selectedProcess) \<Rightarrow>
          if isResourceAlive selectedProcess
          then (s1\<lparr>pool := (pool s1)[resourceIndex t_sel s1 := selectedProcess\<lparr>lastUsed := t_use\<rparr>]\<rparr>,
                Inr (selectedProcess\<lparr>lastUsed := t_use\<rparr>))
          else (case removeFromPool (name selectedProcess) s1 of
                  (s2, removed) \<Rightarrow>
                    (case pool s2 of
                       [] \<Rightarrow> (s2, Inl NoResource)
                     | first # rest \<Rightarrow> (s2, Inr first))))"

text \<open>\<^verbatim>\<open>getOrCreateProcessInPool(scriptPath)\<close>, run without interleaving.\<close>

definition getOrCreateProcessInPool ::
  "string option \<Rightarrow> acquire_env \<Rightarrow> manager \<Rightarrow> manager \<times> (error + resourceInfo)" where
  "getOrCreateProcessInPool scriptPath env s =
     (case acquire_enter scriptPath (t_request env) s of
        Inl e \<Rightarrow> (s, Inl e)
      | Inr s1 \<Rightarrow>
          (case (if canCreateNewResource s1 then tryCreate env s1 else (s1, None)) of
             (s2, Some processInfo) \<Rightarrow> (s2, Inr processInfo)
           | (s2, None) \<Rightarrow> selectExisting (t_select env) (t_used env) s2))"

text \<open>
  The same call split at its suspension point \<^verbatim>\<open>await this.createProcess(...)\<close>, for runs
  in which other operations happen while the child starts. \<open>suspendAtCreate\<close> is the call
  up to the await: \<open>Inr (s', True)\<close> means the call is now waiting for the child;
  \<open>Inr (s', False)\<close> means it did not reach \<^verbatim>\<open>createProcess\<close> and goes on to selection.
  \<open>resumeAfterCreate\<close> is the rest of the call, run in the state the manager has when the
  promise settles (\<open>created = None\<close>: rejected).
\<close>

definition suspendAtCreate ::
  "string option \<Rightarrow> acquire_env \<Rightarrow> manager \<Rightarrow> error + manager \<times> bool" where
  "suspendAtCreate scriptPath env s =
     (case acquire_enter scriptPath (t_request env) s of
        Inl e \<Rightarrow> Inl e
      | Inr s1 \<Rightarrow>
          if canCreateNewResource s1
          then (case port_result env of
                  None \<Rightarrow> Inr (s1, False)
                | Some prt \<Rightarrow> Inr (s1\<lparr>createCalls := createCalls s1 + 1\<rparr>, True))
          else Inr (s1, False))"

definition resumeAfterCreate ::
  "acquire_env \<Rightarrow> resourceInfo option \<Rightarrow> manager \<Rightarrow> manager \<times> (error + resourceInfo)" where
  "resumeAfterCreate env created s =
     (case (case created of None \<Rightarrow> (s, None) | Some processInfo \<Rightarrow> afterCreate processInfo s) of
        (s2, Some processInfo) \<Rightarrow> (s2, Inr processInfo)
      | (s2, None) \<Rightarrow> selectExisting (t_select env) (t_used env) s2)"

section \<open>Runs of operations\<close>

text \<open>
  The operations a manager can undergo between two observations. \<open>WatcherTick\<close> is a firing
  of the interval timer (it fires only while a timer is held). \<open>Shutdown\<close> is the base
  class's method, \<open>ProcessShutdown\<close> the override. \<open>GetOrCreate\<close> is a whole acquisition.
  \<open>SuspendAtCreate\<close> is an acquisition up to its await of \<^verbatim>\<open>createProcess\<close> (or to its end,
  when it does not reach \<^verbatim>\<open>createProcess\<close>), and \<open>ResumeAfterCreate\<close> is the rest of a
  waiting acquisition. The liveness probe of \<open>HealthCheck\<close> is the subclass's and is a
  parameter of the run.
\<close>

datatype op =
    AddToPool resourceInfo
  | RemoveFromPool string
  | SelectFromPool nat
  | WatcherTick nat
  | HealthCheck
  | ClearPool nat
  | Shutdown nat
  | ProcessShutdown nat
  | StartPoolWatcher
  | StopPoolWatcher
  | GetOrCreate "string option" acquire_env
  | SuspendAtCreate "string option" acquire_env
  | ResumeAfterCreate acquire_env "resourceInfo option"

fun exec :: "(resourceInfo \<Rightarrow> bool) \<Rightarrow> op \<Rightarrow> manager \<Rightarrow> manager" where
  "exec isAlive (AddToPool r) s = fst (addToPool r s)"
| "exec isAlive (RemoveFromPool n) s = fst (removeFromPool n s)"
| "exec isAlive (SelectFromPool now) s = fst (selectFromPool now s)"
| "exec isAlive (WatcherTick now) s =
     (if watcherInterval s = None then s else watcherTick now s)"
| "exec isAlive HealthCheck s = fst (healthCheck isAlive s)"
| "exec isAlive (ClearPool now) s = clearPool now s"
| "exec isAlive (Shutdown now) s = shutdown now s"
| "exec isAlive (ProcessShutdown now) s = ProcessManager_shutdown now s"
| "exec isAlive StartPoolWatcher s = startPoolWatcher s"
| "exec isAlive StopPoolWatcher s = stopPoolWatcher s"
| "exec isAlive (GetOrCreate scriptPath env) s = fst (getOrCreateProcessInPool scriptPath env s)"
| "exec isAlive (SuspendAtCreate scriptPath env) s =
     (case suspendAtCreate scriptPath env s of
        Inl e \<Rightarrow> s
      | Inr (s1, waiting) \<Rightarrow>
          if waiting then s1 else fst (selectExisting (t_select env) (t_used env) s1))"
| "exec isAlive (ResumeAfterCreate env created) s = fst (resumeAfterCreate env created s)"

fun run :: "(resourceInfo \<Rightarrow> bool) \<Rightarrow> op list \<Rightarrow> manager \<Rightarrow> manager" where
  "run isAlive [] s = s"
| "run isAlive (x # xs) s = run isAlive xs (exec isAlive x s)"

text \<open>
  The relation between a state and a later state that every operation maintains:
  \<open>maxPoolSize\<close> is not written, the pool is no longer than the larger of its previous
  length and \<open>maxPoolSize\<close>, and \<open>requests\<close> has grown by as much as \<open>hits + misses\<close>.
\<close>

definition keeps :: "manager \<Rightarrow> manager \<Rightarrow> bool" where
  "keeps s s' =
     (maxPoolSize s' = maxPoolSize s
      \<and> length (pool s') \<le> max (length (pool s)) (maxPoolSize s)
      \<and> hits (metrics s') + misses (metrics s') + requests (metrics s)
          = hits (metrics s) + misses (metrics s) + requests (metrics s'))"

section \<open>Auxiliary facts\<close>

lemma keeps_refl: "keeps s s"
  by (simp add: keeps_def)

lemma keeps_trans: "keeps s s1 \<Longrightarrow> keeps s1 s2 \<Longrightarrow> keeps s s2"
  unfolding keeps_def by (elim conjE, intro conjI) linarith+

lemma length_splice1_le: "length (splice1 i xs) \<le> length xs"
  by (simp add: splice1_def)

lemma fold_terminateResource:
  "fold terminateResource rs s = s\<lparr>terminated := terminated s @ map name rs\<rparr>"
  by (induction rs arbitrary: s) (simp_all add: terminateResource_def)

lemma keeps_addToPool: "keeps s (fst (addToPool r s))"
  by (simp add: addToPool_def keeps_def)

lemma keeps_removeFromPool: "keeps s (fst (removeFromPool n s))"
  using length_splice1_le [of _ "pool s"]
  by (auto simp: removeFromPool_def keeps_def max_def split: option.splits intro: le_trans)

lemma keeps_selectFromPool: "keeps s (fst (selectFromPool now s))"
  by (simp add: selectFromPool_def keeps_def Let_def)

lemma keeps_startPoolWatcher: "keeps s (startPoolWatcher s)"
  by (simp add: startPoolWatcher_def poolWatcher_def keeps_def)

lemma keeps_stopPoolWatcher: "keeps s (stopPoolWatcher s)"
  by (simp add: stopPoolWatcher_def keeps_def)

lemma keeps_terminateResource: "keeps s (terminateResource r s)"
  by (simp add: terminateResource_def keeps_def)

lemma keeps_watcherTick: "keeps s (watcherTick now s)"
  by (auto simp: watcherTick_def terminateResource_def keeps_def split: list.splits)

lemma keeps_clearPool: "keeps s (clearPool now s)"
  by (simp add: clearPool_def updateLastRequestTime_def keeps_def)

lemma keeps_shutdown: "keeps s (shutdown now s)"
  by (simp add: shutdown_def onShutdown_def removeAllListeners_def stopAllResources_def
      clearPool_def updateLastRequestTime_def fold_terminateResource stopPoolWatcher_def
      keeps_def)

lemma keeps_ProcessManager_shutdown: "keeps s (ProcessManager_shutdown now s)"
  by (simp add: ProcessManager_shutdown_def removeAllListeners_def stopAllProcesses_def
      clearPool_def updateLastRequestTime_def fold_terminateResource stopPoolWatcher_def
      keeps_def)

lemma healthCheck_loop_filter:
  "n \<le> length p \<Longrightarrow>
   healthCheck_loop a n p d =
     (filter a (take n p) @ drop n p, d @ rev (filter (\<lambda>r. \<not> a r) (take n p)))"
proof (induction n arbitrary: p d)
  case 0
  then show ?case by simp
next
  case (Suc n)
  then have lt: "n < length p" by simp
  have tk: "take (Suc n) p = take n p @ [p ! n]"
    using lt by (simp add: take_Suc_conv_app_nth)
  have dr: "drop n p = p ! n # drop (Suc n) p"
    using lt by (simp add: Cons_nth_drop_Suc)
  show ?case
  proof (cases "a (p ! n)")
    case True
    then show ?thesis using Suc.IH [of p d] lt tk dr by simp
  next
    case False
    have len: "n \<le> length (splice1 n p)" using lt by (simp add: splice1_def)
    have t2: "take n (splice1 n p) = take n p" using lt by (simp add: splice1_def)
    have d2: "drop n (splice1 n p) = drop (Suc n) p" using lt by (simp add: splice1_def)
    show ?thesis using False Suc.IH [OF len, of "d @ [p ! n]"] tk t2 d2 by simp
  qed
qed

lemma healthCheck_state: "fst (healthCheck a s) = s\<lparr>pool := filter a (pool s)\<rparr>"
  by (simp add: healthCheck_def healthCheck_loop_filter)

lemma keeps_healthCheck: "keeps s (fst (healthCheck a s))"
  by (simp add: healthCheck_state keeps_def max_def le_trans [OF length_filter_le])

lemma keeps_afterCreate: "keeps s (fst (afterCreate p s))"
  by (simp add: afterCreate_def keeps_addToPool keeps_terminateResource)

lemma keeps_createProcess: "keeps s (fst (createProcess a b c s))"
  by (simp add: createProcess_def keeps_def)

lemma keeps_selectExisting: "keeps s (fst (selectExisting a b s))"
proof -
  obtain s1 r where sel: "selectFromPool a s = (s1, r)" by (cases "selectFromPool a s")
  have k1: "keeps s s1" using keeps_selectFromPool [of s a] sel by simp
  show ?thesis
  proof (cases r)
    case None
    then show ?thesis using sel k1 by (simp add: selectExisting_def)
  next
    case (Some sp)
    show ?thesis
    proof (cases "isResourceAlive sp")
      case True
      have "keeps s1 (s1\<lparr>pool := (pool s1)[resourceIndex a s1 := sp\<lparr>lastUsed := b\<rparr>]\<rparr>)"
        by (simp add: keeps_def)
      then show ?thesis using sel Some True k1
        by (simp add: selectExisting_def) (rule keeps_trans)
    next
      case False
      obtain s2 rm where rem: "removeFromPool (name sp) s1 = (s2, rm)"
        by (cases "removeFromPool (name sp) s1")
      have "keeps s1 s2" using keeps_removeFromPool [of s1 "name sp"] rem by simp
      with k1 have "keeps s s2" by (rule keeps_trans)
      then show ?thesis using sel Some False rem
        by (simp add: selectExisting_def split: list.splits)
    qed
  qed
qed

lemma keeps_tryCreate: "keeps s (fst (tryCreate env s))"
proof (cases "port_result env")
  case None
  then show ?thesis by (simp add: tryCreate_def keeps_refl)
next
  case (Some prt)
  obtain s1 r where cp: "createProcess prt (processName prt (t_name env)) (create_result env) s = (s1, r)"
    by (cases "createProcess prt (processName prt (t_name env)) (create_result env) s")
  have k1: "keeps s s1" using keeps_createProcess [of s prt "processName prt (t_name env)" "create_result env"] cp by simp
  show ?thesis
  proof (cases r)
    case None
    then show ?thesis using Some cp k1 by (simp add: tryCreate_def)
  next
    case (Some p)
    have "keeps s (fst (afterCreate p s1))" using k1 keeps_afterCreate by (rule keeps_trans)
    then show ?thesis using \<open>port_result env = Some prt\<close> cp Some by (simp add: tryCreate_def)
  qed
qed

lemma keeps_acquire_enter: "acquire_enter sp now s = Inr s1 \<Longrightarrow> keeps s s1"
  by (auto simp: acquire_enter_def startPoolWatcher_def poolWatcher_def
      updateLastRequestTime_def keeps_def split: if_splits)

lemma keeps_resumeAfterCreate: "keeps s (fst (resumeAfterCreate env c s))"
proof (cases c)
  case None
  then show ?thesis by (simp add: resumeAfterCreate_def keeps_selectExisting)
next
  case (Some p)
  obtain s2 r where ac: "afterCreate p s = (s2, r)" by (cases "afterCreate p s")
  have k: "keeps s s2" using keeps_afterCreate [of s p] ac by simp
  show ?thesis
  proof (cases r)
    case None
    have "keeps s (fst (selectExisting (t_select env) (t_used env) s2))"
      using k keeps_selectExisting by (rule keeps_trans)
    then show ?thesis using Some ac None by (simp add: resumeAfterCreate_def)
  next
    case (Some q)
    then show ?thesis using \<open>c = Some p\<close> ac k by (simp add: resumeAfterCreate_def)
  qed
qed

lemma keeps_getOrCreateProcessInPool: "keeps s (fst (getOrCreateProcessInPool sp env s))"
proof (cases "acquire_enter sp (t_request env) s")
  case (Inl e)
  then show ?thesis by (simp add: getOrCreateProcessInPool_def keeps_refl)
next
  case (Inr s1)
  then have k1: "keeps s s1" by (rule keeps_acquire_enter)
  obtain s2 r where tc: "(if canCreateNewResource s1 then tryCreate env s1 else (s1, None)) = (s2, r)"
    by (cases "if canCreateNewResource s1 then tryCreate env s1 else (s1, None)")
  have "keeps s1 s2" using tc keeps_tryCreate [of s1 env]
    by (auto simp: keeps_refl split: if_splits)
  with k1 have k2: "keeps s s2" by (rule keeps_trans)
  show ?thesis
  proof (cases r)
    case None
    have "keeps s (fst (selectExisting (t_select env) (t_used env) s2))"
      using k2 keeps_selectExisting by (rule keeps_trans)
    then show ?thesis using Inr tc None by (simp add: getOrCreateProcessInPool_def)
  next
    case (Some q)
    then show ?thesis using Inr tc k2 by (simp add: getOrCreateProcessInPool_def)
  qed
qed

lemma keeps_suspendAtCreate: "suspendAtCreate sp env s = Inr (s1, w) \<Longrightarrow> keeps s s1"
  by (auto simp: suspendAtCreate_def keeps_def split: sum.splits if_splits option.splits
      dest!: keeps_acquire_enter)

lemma keeps_exec: "keeps s (exec a x s)"
proof (cases x)
  case (SuspendAtCreate sp env)
  show ?thesis
  proof (cases "suspendAtCreate sp env s")
    case (Inl e)
    then show ?thesis using SuspendAtCreate by (simp add: keeps_refl)
  next
    case (Inr pr)
    obtain s1 w where pr: "pr = (s1, w)" by (cases pr)
    have k1: "keeps s s1" using Inr pr by (simp add: keeps_suspendAtCreate)
    have "keeps s (fst (selectExisting (t_select env) (t_used env) s1))"
      using k1 keeps_selectExisting by (rule keeps_trans)
    then show ?thesis using SuspendAtCreate Inr pr k1 by simp
  qed
next
  case (WatcherTick now)
  then show ?thesis by (simp add: keeps_refl keeps_watcherTick)
qed (simp_all add: keeps_addToPool keeps_removeFromPool keeps_selectFromPool
      keeps_healthCheck keeps_clearPool keeps_shutdown keeps_ProcessManager_shutdown
      keeps_startPoolWatcher keeps_stopPoolWatcher keeps_getOrCreateProcessInPool
      keeps_resumeAfterCreate)

lemma keeps_run: "keeps s (run a xs s)"
proof (induction xs arbitrary: s)
  case Nil
  show ?case by (simp add: keeps_refl)
next
  case (Cons x xs)
  have "keeps s (exec a x s)" by (rule keeps_exec)
  moreover have "keeps (exec a x s) (run a xs (exec a x s))" by (rule Cons.IH)
  ultimately show ?case by (simp add: keeps_trans)
qed

lemma js_or_pos: "0 < d \<Longrightarrow> 0 < js_or v d"
  by (simp add: js_or_def split: option.splits)

lemma constructor_maxPoolSize:
  "maxPoolSize (BaseServerlessManager opts now) = js_or (opt_maxPoolSize opts) 3"
  "0 < maxPoolSize (BaseServerlessManager opts now)"
  "maxPoolSize (BaseServerlessManager (opts\<lparr>opt_maxPoolSize := Some 0\<rparr>) now) = 3"
  "maxPoolSize (ProcessManager opts now) = maxPoolSize (BaseServerlessManager opts now)"
  by (simp_all add: BaseServerlessManager_def ProcessManager_def js_or_def split: option.splits)

lemma acquire_on_empty_full_pool:
  assumes "pool s = []" "maxPoolSize s = 0" "\<not> isShuttingDown s" "\<not> falsy_path scriptPath"
  shows "getOrCreateProcessInPool scriptPath env s =
           ((startPoolWatcher (updateLastRequestTime (t_request env) s))
              \<lparr>metrics := (metrics s)\<lparr>requests := requests (metrics s) + 1,
                                      misses := misses (metrics s) + 1\<rparr>\<rparr>,
            Inl NoResource)"
  using assms
  by (simp add: getOrCreateProcessInPool_def acquire_enter_def canCreateNewResource_def
      selectExisting_def selectFromPool_def startPoolWatcher_def poolWatcher_def
      updateLastRequestTime_def Let_def)

lemma shutdown_post:
  "pool (shutdown now (s\<lparr>isShuttingDown := False\<rparr>)) = []
   \<and> watcherInterval (shutdown now (s\<lparr>isShuttingDown := False\<rparr>)) = None
   \<and> signalHandlers (shutdown now (s\<lparr>isShuttingDown := False\<rparr>)) = False
   \<and> isShuttingDown (shutdown now (s\<lparr>isShuttingDown := False\<rparr>)) = True
   \<and> onShutdownCalls (shutdown now (s\<lparr>isShuttingDown := False\<rparr>)) = onShutdownCalls s + 1
   \<and> terminated (shutdown now (s\<lparr>isShuttingDown := False\<rparr>)) = terminated s @ map name (pool s)
   \<and> shutdown now' (shutdown now s) = shutdown now s"
  by (simp add: shutdown_def onShutdown_def removeAllListeners_def
      stopAllResources_def clearPool_def updateLastRequestTime_def
      fold_terminateResource stopPoolWatcher_def)

lemma startPoolWatcher_twice: "startPoolWatcher (startPoolWatcher s) = startPoolWatcher s"
  by (simp add: startPoolWatcher_def poolWatcher_def)

lemma startPoolWatcher_funpow:
  "(startPoolWatcher ^^ Suc n) s = startPoolWatcher s"
  by (induction n) (simp_all add: startPoolWatcher_twice)

lemma string_of_nat_digits:
  "string_of_nat 0 = ''0''" "string_of_nat 1 = ''1''" "string_of_nat (Suc 0) = ''1''"
  "string_of_nat 2 = ''2''"
proof -
  show "string_of_nat 0 = ''0''"
    by (subst string_of_nat.simps) (simp add: digit_char_def)
  show d1: "string_of_nat 1 = ''1''"
    by (subst string_of_nat.simps) (simp add: digit_char_def)
  show "string_of_nat (Suc 0) = ''1''"
    using d1 by simp
  show "string_of_nat 2 = ''2''"
    by (subst string_of_nat.simps) (simp add: digit_char_def)
qed

lemma processName_example: "processName 8080 1000 = ''process-8080-1000''"
proof -
  have a: "string_of_nat 8080 = ''8080''"
    by (subst string_of_nat.simps, simp add: digit_char_def)+
  have b: "string_of_nat 1000 = ''1000''"
    by (subst string_of_nat.simps, simp add: digit_char_def)+
  show ?thesis by (simp add: processName_def a b)
qed

section \<open>The pool-size bound\<close>

text \<open>
  Claim C1. Start from any manager whose pool is empty and run any sequence of operations
  (\<open>addToPool\<close>, \<open>removeFromPool\<close>, \<open>selectFromPool\<close>, watcher ticks, \<open>healthCheck\<close>,
  \<open>clearPool\<close>, either \<open>shutdown\<close>, starting and stopping the watcher, and acquisitions,
  whole or split at the creation of the child). Then the pool holds at most \<open>maxPoolSize\<close>
  handles, and \<open>maxPoolSize\<close> is what it was. The sequence is arbitrary, so the bound holds
  after each of its prefixes, that is, at every observation between operations. Moreover
  \<open>addToPool\<close> returns true exactly when the pool is shorter than \<open>maxPoolSize\<close>, and
  appends the handle then and leaves the pool alone otherwise.
\<close>

theorem pool_size_bound:
  assumes "pool s0 = []"
  shows "length (pool (run isAlive ops s0)) \<le> maxPoolSize s0
       \<and> maxPoolSize (run isAlive ops s0) = maxPoolSize s0
       \<and> snd (addToPool r s) = (length (pool s) < maxPoolSize s)
       \<and> pool (fst (addToPool r s))
           = (if length (pool s) < maxPoolSize s then pool s @ [r] else pool s)"
proof -
  have "keeps s0 (run isAlive ops s0)" by (rule keeps_run)
  then have "length (pool (run isAlive ops s0)) \<le> maxPoolSize s0"
    and "maxPoolSize (run isAlive ops s0) = maxPoolSize s0"
    using assms by (simp_all add: keeps_def)
  then show ?thesis by (simp add: addToPool_def)
qed

theorem pool_size_bound_witness:
  "pool (BaseServerlessManager
           \<lparr>opt_maxPoolSize = Some 1, opt_poolCheckInterval = None,
            opt_shutdownTimeout = None, opt_minPoolSize = None\<rparr> 0) = []
   \<and> length (pool (run (\<lambda>r. True)
        [AddToPool \<lparr>name = ''one'', port = 8001, process = None, createdAt = 0, lastUsed = 0\<rparr>,
         AddToPool \<lparr>name = ''two'', port = 8002, process = None, createdAt = 0, lastUsed = 0\<rparr>]
        (BaseServerlessManager
           \<lparr>opt_maxPoolSize = Some 1, opt_poolCheckInterval = None,
            opt_shutdownTimeout = None, opt_minPoolSize = None\<rparr> 0))) \<le> 1"
proof -
  let ?s0 = "BaseServerlessManager
           \<lparr>opt_maxPoolSize = Some 1, opt_poolCheckInterval = None,
            opt_shutdownTimeout = None, opt_minPoolSize = None\<rparr> 0"
  have e: "pool ?s0 = []" by (simp add: BaseServerlessManager_def)
  have m: "maxPoolSize ?s0 = 1" by (simp add: BaseServerlessManager_def js_or_def)
  from pool_size_bound [OF e] have
    "length (pool (run (\<lambda>r. True)
        [AddToPool \<lparr>name = ''one'', port = 8001, process = None, createdAt = 0, lastUsed = 0\<rparr>,
         AddToPool \<lparr>name = ''two'', port = 8002, process = None, createdAt = 0, lastUsed = 0\<rparr>]
        ?s0)) \<le> maxPoolSize ?s0"
    by (rule conjunct1)
  with e m show ?thesis by simp
qed

section \<open>Round-robin selection\<close>

text \<open>
  Claim C2. Every call of \<open>selectFromPool\<close> increments \<open>requests\<close>. On an empty pool it
  increments \<open>misses\<close> (and not \<open>hits\<close>) and returns null. On a pool of \<open>n > 0\<close> handles it
  increments \<open>hits\<close> (and not \<open>misses\<close>) and returns the handle at index
  \<open>floor (now_ms / 1000) mod n\<close>. With pool \<open>[A, B, C]\<close> the call at second 2000 returns \<open>C\<close>
  and the call at second 2001 returns \<open>A\<close>. Nothing but the three counters changes.
\<close>

theorem selectFromPool_round_robin:
  "requests (metrics (fst (selectFromPool now s))) = requests (metrics s) + 1
   \<and> (if pool s = []
      then misses (metrics (fst (selectFromPool now s))) = misses (metrics s) + 1
         \<and> hits (metrics (fst (selectFromPool now s))) = hits (metrics s)
         \<and> snd (selectFromPool now s) = None
      else hits (metrics (fst (selectFromPool now s))) = hits (metrics s) + 1
         \<and> misses (metrics (fst (selectFromPool now s))) = misses (metrics s)
         \<and> snd (selectFromPool now s) = Some (pool s ! ((now div 1000) mod length (pool s))))
   \<and> fst (selectFromPool now s)
      = s\<lparr>metrics :=
            (if pool s = []
             then (metrics s)\<lparr>requests := requests (metrics s) + 1,
                              misses := misses (metrics s) + 1\<rparr>
             else (metrics s)\<lparr>requests := requests (metrics s) + 1,
                              hits := hits (metrics s) + 1\<rparr>)\<rparr>
   \<and> snd (selectFromPool (2000 * 1000) (s\<lparr>pool := [A, B, C]\<rparr>)) = Some C
   \<and> snd (selectFromPool (2001 * 1000) (s\<lparr>pool := [A, B, C]\<rparr>)) = Some A"
  by (simp add: selectFromPool_def resourceIndex_def Let_def)

section \<open>Admission while shutting down\<close>

text \<open>
  Claim C3 says that no handle is admitted to the pool once \<open>isShuttingDown\<close> is set. The
  code admits one: \<open>addToPool\<close> does not read the flag, and \<^verbatim>\<open>getOrCreateProcessInPool\<close>
  reads it only on entry. In the run below an acquisition on a fresh \<^verbatim>\<open>ProcessManager\<close>
  passes the entry guard and waits for \<^verbatim>\<open>createProcess\<close>; the overriding \<open>shutdown\<close> runs
  meanwhile (the flag is set, the pool is empty); the child starts and the acquisition
  resumes: the second check of the pool size succeeds and the handle enters the pool of a
  manager that is shutting down, without any call of \<open>terminateResource\<close>.
\<close>

theorem shutdown_during_create_admits_handle:
  "suspendAtCreate (Some ''index.js'')
      \<lparr>t_request = 1000, port_result = Some 8080, t_name = 1000,
       create_result = Some (1200, 1200), t_select = 1200, t_used = 1200\<rparr>
      (ProcessManager
         \<lparr>opt_maxPoolSize = None, opt_poolCheckInterval = None,
          opt_shutdownTimeout = None, opt_minPoolSize = None\<rparr> 0)
    = Inr ((ProcessManager
         \<lparr>opt_maxPoolSize = None, opt_poolCheckInterval = None,
          opt_shutdownTimeout = None, opt_minPoolSize = None\<rparr> 0)
            \<lparr>lastRequestTime := 1000, watcherStarted := True, watcherInterval := Some 0,
             timersCreated := 1, createCalls := 1\<rparr>, True)
   \<and> snd (createProcess 8080 (processName 8080 1000) (Some (1200, 1200)) s)
      = Some \<lparr>name = ''process-8080-1000'', port = 8080,
               process = Some (ChildProcess False), createdAt = 1200, lastUsed = 1200\<rparr>
   \<and> isShuttingDown (run isResourceAlive
        [SuspendAtCreate (Some ''index.js'')
           \<lparr>t_request = 1000, port_result = Some 8080, t_name = 1000,
            create_result = Some (1200, 1200), t_select = 1200, t_used = 1200\<rparr>,
         ProcessShutdown 1100]
        (ProcessManager
         \<lparr>opt_maxPoolSize = None, opt_poolCheckInterval = None,
          opt_shutdownTimeout = None, opt_minPoolSize = None\<rparr> 0))
   \<and> pool (run isResourceAlive
        [SuspendAtCreate (Some ''index.js'')
           \<lparr>t_request = 1000, port_result = Some 8080, t_name = 1000,
            create_result = Some (1200, 1200), t_select = 1200, t_used = 1200\<rparr>,
         ProcessShutdown 1100]
        (ProcessManager
         \<lparr>opt_maxPoolSize = None, opt_poolCheckInterval = None,
          opt_shutdownTimeout = None, opt_minPoolSize = None\<rparr> 0)) = []
   \<and> isShuttingDown (run isResourceAlive
        [SuspendAtCreate (Some ''index.js'')
           \<lparr>t_request = 1000, port_result = Some 8080, t_name = 1000,
            create_result = Some (1200, 1200), t_select = 1200, t_used = 1200\<rparr>,
         ProcessShutdown 1100,
         ResumeAfterCreate
           \<lparr>t_request = 1000, port_result = Some 8080, t_name = 1000,
            create_result = Some (1200, 1200), t_select = 1200, t_used = 1200\<rparr>
           (Some \<lparr>name = ''process-8080-1000'', port = 8080,
                  process = Some (ChildProcess False), createdAt = 1200, lastUsed = 1200\<rparr>)]
        (ProcessManager
         \<lparr>opt_maxPoolSize = None, opt_poolCheckInterval = None,
          opt_shutdownTimeout = None, opt_minPoolSize = None\<rparr> 0))
   \<and> pool (run isResourceAlive
        [SuspendAtCreate (Some ''index.js'')
           \<lparr>t_request = 1000, port_result = Some 8080, t_name = 1000,
            create_result = Some (1200, 1200), t_select = 1200, t_used = 1200\<rparr>,
         ProcessShutdown 1100,
         ResumeAfterCreate
           \<lparr>t_request = 1000, port_result = Some 8080, t_name = 1000,
            create_result = Some (1200, 1200), t_select = 1200, t_used = 1200\<rparr>
           (Some \<lparr>name = ''process-8080-1000'', port = 8080,
                  process = Some (ChildProcess False), createdAt = 1200, lastUsed = 1200\<rparr>)]
        (ProcessManager
         \<lparr>opt_maxPoolSize = None, opt_poolCheckInterval = None,
          opt_shutdownTimeout = None, opt_minPoolSize = None\<rparr> 0))
      = [\<lparr>name = ''process-8080-1000'', port = 8080,
          process = Some (ChildProcess False), createdAt = 1200, lastUsed = 1200\<rparr>]
   \<and> terminated (run isResourceAlive
        [SuspendAtCreate (Some ''index.js'')
           \<lparr>t_request = 1000, port_result = Some 8080, t_name = 1000,
            create_result = Some (1200, 1200), t_select = 1200, t_used = 1200\<rparr>,
         ProcessShutdown 1100,
         ResumeAfterCreate
           \<lparr>t_request = 1000, port_result = Some 8080, t_name = 1000,
            create_result = Some (1200, 1200), t_select = 1200, t_used = 1200\<rparr>
           (Some \<lparr>name = ''process-8080-1000'', port = 8080,
                  process = Some (ChildProcess False), createdAt = 1200, lastUsed = 1200\<rparr>)]
        (ProcessManager
         \<lparr>opt_maxPoolSize = None, opt_poolCheckInterval = None,
          opt_shutdownTimeout = None, opt_minPoolSize = None\<rparr> 0)) = []
   \<and> addToPool r (s\<lparr>isShuttingDown := True\<rparr>)
      = (fst (addToPool r s)\<lparr>isShuttingDown := True\<rparr>, snd (addToPool r s))"
  by (simp add: suspendAtCreate_def acquire_enter_def falsy_path_def ProcessManager_def
      BaseServerlessManager_def js_or_def startPoolWatcher_def poolWatcher_def
      updateLastRequestTime_def canCreateNewResource_def ProcessManager_shutdown_def
      stopPoolWatcher_def stopAllProcesses_def removeAllListeners_def resumeAfterCreate_def
      afterCreate_def addToPool_def createProcess_def processName_example)

section \<open>Shutdown\<close>

text \<open>
  Claim C4 says that every \<open>shutdown\<close> from a state that is not shutting down leaves the pool
  empty, the timer cancelled, the signal handlers detached and the flag set, and has called
  the \<open>onShutdown\<close> hook exactly once, also in \<^verbatim>\<open>ProcessManager\<close>. The override of
  \<^verbatim>\<open>ProcessManager\<close> reaches the same state except for the hook, which it never calls:
  the number of hook calls is unchanged by it, where the base method adds one.
\<close>

theorem ProcessManager_shutdown_skips_onShutdown:
  "onShutdownCalls (ProcessManager_shutdown now s) = onShutdownCalls s
   \<and> onShutdownCalls (shutdown now (s\<lparr>isShuttingDown := False\<rparr>)) = onShutdownCalls s + 1
   \<and> pool (ProcessManager_shutdown now (s\<lparr>isShuttingDown := False\<rparr>)) = []
   \<and> watcherInterval (ProcessManager_shutdown now (s\<lparr>isShuttingDown := False\<rparr>)) = None
   \<and> signalHandlers (ProcessManager_shutdown now (s\<lparr>isShuttingDown := False\<rparr>)) = False
   \<and> isShuttingDown (ProcessManager_shutdown now (s\<lparr>isShuttingDown := False\<rparr>)) = True
   \<and> onShutdownCalls (ProcessManager_shutdown 10
        (ProcessManager
         \<lparr>opt_maxPoolSize = None, opt_poolCheckInterval = None,
          opt_shutdownTimeout = None, opt_minPoolSize = None\<rparr> 0)) = 0"
  by (simp add: ProcessManager_shutdown_def shutdown_def onShutdown_def removeAllListeners_def
      stopAllProcesses_def stopAllResources_def clearPool_def updateLastRequestTime_def
      fold_terminateResource stopPoolWatcher_def ProcessManager_def BaseServerlessManager_def)

section \<open>Starting the watcher\<close>

text \<open>
  Claim C5 says that \<open>n \<ge> 1\<close> calls of \<open>startPoolWatcher\<close> create exactly one timer, and that
  the first call creates handles until the pool holds \<open>minPoolSize\<close> of them. The first
  part holds: on a fresh manager the calls create one timer. The second does not:
  \<open>startPoolWatcher\<close> never changes the pool and never creates a resource, and the
  constructor does not read \<^verbatim>\<open>minPoolSize\<close>; with \<^verbatim>\<open>{ minPoolSize: 3, maxPoolSize: 5 }\<close>
  the pool is still empty after the call.
\<close>

theorem startPoolWatcher_no_prewarm:
  "timersCreated ((startPoolWatcher ^^ Suc n) (BaseServerlessManager opts now)) = 1
   \<and> watcherInterval ((startPoolWatcher ^^ Suc n) (BaseServerlessManager opts now)) = Some 0
   \<and> pool ((startPoolWatcher ^^ Suc n) s) = pool s
   \<and> createCalls ((startPoolWatcher ^^ Suc n) s) = createCalls s
   \<and> length (pool (startPoolWatcher
        (BaseServerlessManager
           \<lparr>opt_maxPoolSize = Some 5, opt_poolCheckInterval = None,
            opt_shutdownTimeout = None, opt_minPoolSize = Some 3\<rparr> 0))) = 0"
  by (simp only: startPoolWatcher_funpow)
     (simp add: startPoolWatcher_def poolWatcher_def BaseServerlessManager_def)

section \<open>Idle eviction\<close>

text \<open>
  Claim C6. A firing of the watcher's callback in a state that is not shutting down, has a
  non-empty pool and has \<open>now - lastRequestTime > poolCheckInterval\<close> removes exactly the
  first handle of the pool (the oldest: \<open>addToPool\<close> appends at the end), adds one to
  \<open>evictions\<close>, calls \<open>terminateResource\<close> on that handle and changes nothing else; in
  particular \<open>removals\<close> is unchanged. A firing in any other state changes nothing.
\<close>

theorem watcherTick_eviction:
  "watcherTick now s =
     (if \<not> isShuttingDown s \<and> pool s \<noteq> []
         \<and> int now - int (lastRequestTime s) > int (poolCheckInterval s)
      then s\<lparr>pool := tl (pool s),
             metrics := (metrics s)\<lparr>evictions := evictions (metrics s) + 1\<rparr>,
             terminated := terminated s @ [name (hd (pool s))]\<rparr>
      else s)
   \<and> removals (metrics (watcherTick now s)) = removals (metrics s)"
  by (cases "pool s") (simp_all add: watcherTick_def terminateResource_def)

section \<open>The counter identity\<close>

text \<open>
  Claim C7. After any sequence of operations on a fresh manager (of the base class or a
  \<^verbatim>\<open>ProcessManager\<close>, with any options), \<open>hits + misses = requests\<close>.
\<close>

theorem counter_identity:
  "hits (metrics (run isAlive ops (BaseServerlessManager opts now)))
     + misses (metrics (run isAlive ops (BaseServerlessManager opts now)))
   = requests (metrics (run isAlive ops (BaseServerlessManager opts now)))
   \<and> hits (metrics (run isAlive ops (ProcessManager opts now)))
     + misses (metrics (run isAlive ops (ProcessManager opts now)))
   = requests (metrics (run isAlive ops (ProcessManager opts now)))"
  using keeps_run [of "BaseServerlessManager opts now" isAlive ops]
        keeps_run [of "ProcessManager opts now" isAlive ops]
  by (simp add: keeps_def BaseServerlessManager_def ProcessManager_def zero_metrics_def)

section \<open>Zero capacity\<close>

text \<open>
  Claim C8 says that with \<open>maxPoolSize = 0\<close> every acquisition (valid script path, not
  shutting down) fails with \<open>NoResource\<close>, never calls \<^verbatim>\<open>createProcess\<close>, and adds one to
  \<open>requests\<close> and to \<open>misses\<close>. A manager constructed with \<^verbatim>\<open>{ maxPoolSize: 0 }\<close> does not
  behave so: \<^verbatim>\<open>options.maxPoolSize || 3\<close> takes 0 for a missing option, the field is 3, and
  it is never 0 after any sequence of operations on a constructed manager. The first
  acquisition on such a manager calls \<^verbatim>\<open>createProcess\<close> once and returns the new handle,
  with \<open>requests\<close> and \<open>misses\<close> still 0. The gate itself treats capacity 0 as the claim
  says: when the field is assigned 0 after construction (as the repository's tests do) the
  same call fails with \<open>NoResource\<close>, without a call of \<^verbatim>\<open>createProcess\<close>, and with
  \<open>requests\<close> and \<open>misses\<close> at 1.
\<close>

theorem configured_zero_capacity_creates:
  "maxPoolSize (ProcessManager
           \<lparr>opt_maxPoolSize = Some 0, opt_poolCheckInterval = None,
            opt_shutdownTimeout = None, opt_minPoolSize = None\<rparr> now) = 3
   \<and> maxPoolSize (run isAlive ops (ProcessManager opts now)) \<noteq> 0
   \<and> maxPoolSize (run isAlive ops (BaseServerlessManager opts now)) \<noteq> 0
   \<and> snd (getOrCreateProcessInPool (Some ''index.js'')
         \<lparr>t_request = 1000, port_result = Some 8080, t_name = 1000,
          create_result = Some (1200, 1200), t_select = 1200, t_used = 1200\<rparr>
         (ProcessManager
           \<lparr>opt_maxPoolSize = Some 0, opt_poolCheckInterval = None,
            opt_shutdownTimeout = None, opt_minPoolSize = None\<rparr> 0))
      = Inr \<lparr>name = ''process-8080-1000'', port = 8080,
            process = Some (ChildProcess False), createdAt = 1200, lastUsed = 1200\<rparr>
   \<and> createCalls (fst (getOrCreateProcessInPool (Some ''index.js'')
         \<lparr>t_request = 1000, port_result = Some 8080, t_name = 1000,
          create_result = Some (1200, 1200), t_select = 1200, t_used = 1200\<rparr>
         (ProcessManager
           \<lparr>opt_maxPoolSize = Some 0, opt_poolCheckInterval = None,
            opt_shutdownTimeout = None, opt_minPoolSize = None\<rparr> 0))) = 1
   \<and> pool (fst (getOrCreateProcessInPool (Some ''index.js'')
         \<lparr>t_request = 1000, port_result = Some 8080, t_name = 1000,
          create_result = Some (1200, 1200), t_select = 1200, t_used = 1200\<rparr>
         (ProcessManager
           \<lparr>opt_maxPoolSize = Some 0, opt_poolCheckInterval = None,
            opt_shutdownTimeout = None, opt_minPoolSize = None\<rparr> 0)))
      = [\<lparr>name = ''process-8080-1000'', port = 8080,
            process = Some (ChildProcess False), createdAt = 1200, lastUsed = 1200\<rparr>]
   \<and> requests (metrics (fst (getOrCreateProcessInPool (Some ''index.js'')
         \<lparr>t_request = 1000, port_result = Some 8080, t_name = 1000,
          create_result = Some (1200, 1200), t_select = 1200, t_used = 1200\<rparr>
         (ProcessManager
           \<lparr>opt_maxPoolSize = Some 0, opt_poolCheckInterval = None,
            opt_shutdownTimeout = None, opt_minPoolSize = None\<rparr> 0)))) = 0
   \<and> misses (metrics (fst (getOrCreateProcessInPool (Some ''index.js'')
         \<lparr>t_request = 1000, port_result = Some 8080, t_name = 1000,
          create_result = Some (1200, 1200), t_select = 1200, t_used = 1200\<rparr>
         (ProcessManager
           \<lparr>opt_maxPoolSize = Some 0, opt_poolCheckInterval = None,
            opt_shutdownTimeout = None, opt_minPoolSize = None\<rparr> 0)))) = 0
   \<and> snd (getOrCreateProcessInPool (Some ''index.js'')
         \<lparr>t_request = 1000, port_result = Some 8080, t_name = 1000,
          create_result = Some (1200, 1200), t_select = 1200, t_used = 1200\<rparr>
         ((ProcessManager
           \<lparr>opt_maxPoolSize = Some 0, opt_poolCheckInterval = None,
            opt_shutdownTimeout = None, opt_minPoolSize = None\<rparr> 0)\<lparr>maxPoolSize := 0\<rparr>))
      = Inl NoResource
   \<and> createCalls (fst (getOrCreateProcessInPool (Some ''index.js'')
         \<lparr>t_request = 1000, port_result = Some 8080, t_name = 1000,
          create_result = Some (1200, 1200), t_select = 1200, t_used = 1200\<rparr>
         ((ProcessManager
           \<lparr>opt_maxPoolSize = Some 0, opt_poolCheckInterval = None,
            opt_shutdownTimeout = None, opt_minPoolSize = None\<rparr> 0)\<lparr>maxPoolSize := 0\<rparr>))) = 0
   \<and> requests (metrics (fst (getOrCreateProcessInPool (Some ''index.js'')
         \<lparr>t_request = 1000, port_result = Some 8080, t_name = 1000,
          create_result = Some (1200, 1200), t_select = 1200, t_used = 1200\<rparr>
         ((ProcessManager
           \<lparr>opt_maxPoolSize = Some 0, opt_poolCheckInterval = None,
            opt_shutdownTimeout = None, opt_minPoolSize = None\<rparr> 0)\<lparr>maxPoolSize := 0\<rparr>)))) = 1
   \<and> misses (metrics (fst (getOrCreateProcessInPool (Some ''index.js'')
         \<lparr>t_request = 1000, port_result = Some 8080, t_name = 1000,
          create_result = Some (1200, 1200), t_select = 1200, t_used = 1200\<rparr>
         ((ProcessManager
           \<lparr>opt_maxPoolSize = Some 0, opt_poolCheckInterval = None,
            opt_shutdownTimeout = None, opt_minPoolSize = None\<rparr> 0)\<lparr>maxPoolSize := 0\<rparr>)))) = 1"
proof -
  have k1: "keeps (ProcessManager opts now) (run isAlive ops (ProcessManager opts now))"
    by (rule keeps_run)
  have k2: "keeps (BaseServerlessManager opts now)
              (run isAlive ops (BaseServerlessManager opts now))"
    by (rule keeps_run)
  have r1: "maxPoolSize (run isAlive ops (ProcessManager opts now)) \<noteq> 0"
    using k1 constructor_maxPoolSize(2,4) [of opts now] by (simp add: keeps_def)
  have r2: "maxPoolSize (run isAlive ops (BaseServerlessManager opts now)) \<noteq> 0"
    using k2 constructor_maxPoolSize(2) [of opts now] by (simp add: keeps_def)
  show ?thesis
    using r1 r2
    by (simp add: getOrCreateProcessInPool_def acquire_enter_def falsy_path_def
        ProcessManager_def BaseServerlessManager_def js_or_def startPoolWatcher_def
        poolWatcher_def updateLastRequestTime_def canCreateNewResource_def tryCreate_def
        createProcess_def processName_example afterCreate_def addToPool_def
        selectExisting_def selectFromPool_def zero_metrics_def Let_def)
qed

section \<open>The text exposition of the metrics\<close>

text \<open>
  Claim C9. On a fresh manager, after \<open>addToPool h\<close>, \<open>selectFromPool\<close>,
  \<open>removeFromPool (name h)\<close>, \<open>selectFromPool\<close>, the text \<open>getPrometheusMetrics\<close> returns
  consists of a HELP line, a TYPE line and a value line for each of \<open>requests_total\<close>,
  \<open>hits_total\<close>, \<open>misses_total\<close>, \<open>additions_total\<close>, \<open>evictions_total\<close>, \<open>removals_total\<close>
  and \<open>size\<close>, in this order, separated by single newlines with none at the end; each
  value line carries the labels \<^verbatim>\<open>resource_type\<close> and \<^verbatim>\<open>manager\<close>, and the values are
  2, 1, 1, 1, 0, 1 and 0. The first conjunct gives the lines pushed, the second the
  returned text itself.
\<close>

theorem metrics_exposition:
  "metric_lines tag mname
     (fst (selectFromPool t2
       (fst (removeFromPool (name h)
         (fst (selectFromPool t1
           (fst (addToPool h (BaseServerlessManager opts t0)))))))))
   = [''# HELP serverless_manager_pool_requests_total Total number of pool acquisition requests'',
      ''# TYPE serverless_manager_pool_requests_total counter'',
      ''serverless_manager_pool_requests_total{resource_type='' @ [CHR 0x22] @ tag @ [CHR 0x22]
         @ '',manager='' @ [CHR 0x22] @ mname @ [CHR 0x22] @ ''} 2'',
      ''# HELP serverless_manager_pool_hits_total Total number of successful pool hits'',
      ''# TYPE serverless_manager_pool_hits_total counter'',
      ''serverless_manager_pool_hits_total{resource_type='' @ [CHR 0x22] @ tag @ [CHR 0x22]
         @ '',manager='' @ [CHR 0x22] @ mname @ [CHR 0x22] @ ''} 1'',
      ''# HELP serverless_manager_pool_misses_total Total number of pool misses'',
      ''# TYPE serverless_manager_pool_misses_total counter'',
      ''serverless_manager_pool_misses_total{resource_type='' @ [CHR 0x22] @ tag @ [CHR 0x22]
         @ '',manager='' @ [CHR 0x22] @ mname @ [CHR 0x22] @ ''} 1'',
      ''# HELP serverless_manager_pool_additions_total Total number of resources added to pool'',
      ''# TYPE serverless_manager_pool_additions_total counter'',
      ''serverless_manager_pool_additions_total{resource_type='' @ [CHR 0x22] @ tag @ [CHR 0x22]
         @ '',manager='' @ [CHR 0x22] @ mname @ [CHR 0x22] @ ''} 1'',
      ''# HELP serverless_manager_pool_evictions_total Total number of idle resources evicted'',
      ''# TYPE serverless_manager_pool_evictions_total counter'',
      ''serverless_manager_pool_evictions_total{resource_type='' @ [CHR 0x22] @ tag @ [CHR 0x22]
         @ '',manager='' @ [CHR 0x22] @ mname @ [CHR 0x22] @ ''} 0'',
      ''# HELP serverless_manager_pool_removals_total Total number of resources removed from pool'',
      ''# TYPE serverless_manager_pool_removals_total counter'',
      ''serverless_manager_pool_removals_total{resource_type='' @ [CHR 0x22] @ tag @ [CHR 0x22]
         @ '',manager='' @ [CHR 0x22] @ mname @ [CHR 0x22] @ ''} 1'',
      ''# HELP serverless_manager_pool_size Current number of resources in pool'',
      ''# TYPE serverless_manager_pool_size gauge'',
      ''serverless_manager_pool_size{resource_type='' @ [CHR 0x22] @ tag @ [CHR 0x22]
         @ '',manager='' @ [CHR 0x22] @ mname @ [CHR 0x22] @ ''} 0'']
   \<and> getPrometheusMetrics tag mname
     (fst (selectFromPool t2
       (fst (removeFromPool (name h)
         (fst (selectFromPool t1
           (fst (addToPool h (BaseServerlessManager opts t0)))))))))
   = ''# HELP serverless_manager_pool_requests_total Total number of pool acquisition requests''
      @ [CHR 0x0A] @ ''# TYPE serverless_manager_pool_requests_total counter''
      @ [CHR 0x0A] @ ''serverless_manager_pool_requests_total{resource_type='' @ [CHR 0x22] @ tag @ [CHR 0x22]
                @ '',manager='' @ [CHR 0x22] @ mname @ [CHR 0x22] @ ''} 2''
      @ [CHR 0x0A] @ ''# HELP serverless_manager_pool_hits_total Total number of successful pool hits''
      @ [CHR 0x0A] @ ''# TYPE serverless_manager_pool_hits_total counter''
      @ [CHR 0x0A] @ ''serverless_manager_pool_hits_total{resource_type='' @ [CHR 0x22] @ tag @ [CHR 0x22]
                @ '',manager='' @ [CHR 0x22] @ mname @ [CHR 0x22] @ ''} 1''
      @ [CHR 0x0A] @ ''# HELP serverless_manager_pool_misses_total Total number of pool misses''
      @ [CHR 0x0A] @ ''# TYPE serverless_manager_pool_misses_total counter''
      @ [CHR 0x0A] @ ''serverless_manager_pool_misses_total{resource_type='' @ [CHR 0x22] @ tag @ [CHR 0x22]
                @ '',manager='' @ [CHR 0x22] @ mname @ [CHR 0x22] @ ''} 1''
      @ [CHR 0x0A] @ ''# HELP serverless_manager_pool_additions_total Total number of resources added to pool''
      @ [CHR 0x0A] @ ''# TYPE serverless_manager_pool_additions_total counter''
      @ [CHR 0x0A] @ ''serverless_manager_pool_additions_total{resource_type='' @ [CHR 0x22] @ tag @ [CHR 0x22]
                @ '',manager='' @ [CHR 0x22] @ mname @ [CHR 0x22] @ ''} 1''
      @ [CHR 0x0A] @ ''# HELP serverless_manager_pool_evictions_total Total number of idle resources evicted''
      @ [CHR 0x0A] @ ''# TYPE serverless_manager_pool_evictions_total counter''
      @ [CHR 0x0A] @ ''serverless_manager_pool_evictions_total{resource_type='' @ [CHR 0x22] @ tag @ [CHR 0x22]
                @ '',manager='' @ [CHR 0x22] @ mname @ [CHR 0x22] @ ''} 0''
      @ [CHR 0x0A] @ ''# HELP serverless_manager_pool_removals_total Total number of resources removed from pool''
      @ [CHR 0x0A] @ ''# TYPE serverless_manager_pool_removals_total counter''
      @ [CHR 0x0A] @ ''serverless_manager_pool_removals_total{resource_type='' @ [CHR 0x22] @ tag @ [CHR 0x22]
                @ '',manager='' @ [CHR 0x22] @ mname @ [CHR 0x22] @ ''} 1''
      @ [CHR 0x0A] @ ''# HELP serverless_manager_pool_size Current number of resources in pool''
      @ [CHR 0x0A] @ ''# TYPE serverless_manager_pool_size gauge''
      @ [CHR 0x0A] @ ''serverless_manager_pool_size{resource_type='' @ [CHR 0x22] @ tag @ [CHR 0x22]
                @ '',manager='' @ [CHR 0x22] @ mname @ [CHR 0x22] @ ''} 0''"
proof -
  let ?s0 = "BaseServerlessManager opts t0"
  let ?s4 = "fst (selectFromPool t2
       (fst (removeFromPool (name h)
         (fst (selectFromPool t1
           (fst (addToPool h ?s0)))))))"
  have room: "0 < maxPoolSize ?s0" by (simp add: BaseServerlessManager_def js_or_pos)
  have p0: "pool ?s0 = []" and m0: "metrics ?s0 = zero_metrics"
    by (simp_all add: BaseServerlessManager_def)
  have m4: "metrics ?s4 = \<lparr>requests = 2, hits = 1, misses = 1, additions = 1, evictions = 0, removals = 1\<rparr>"
    and p4: "pool ?s4 = []"
    using room p0 m0
    by (simp_all add: addToPool_def selectFromPool_def removeFromPool_def Let_def
        zero_metrics_def splice1_def resourceIndex_def)
  note d = string_of_nat_digits
  show ?thesis
    by (simp add: getPrometheusMetrics_def metric_lines_def metric_labels_def addMetric_def
        m4 p4 d Let_def)
qed

section \<open>The frame of the health check\<close>

text \<open>
  Claim C10. \<open>healthCheck\<close> removes from the pool exactly the handles whose liveness probe
  answers false, keeping the order of the others, and changes nothing else in the manager:
  all six counters, \<open>removals\<close> and \<open>evictions\<close> among them, are as before, however
  many handles were removed. The report counts the handles left and the handles removed.
\<close>

theorem healthCheck_frame_effect:
  "fst (healthCheck isAlive s) = s\<lparr>pool := filter isAlive (pool s)\<rparr>
   \<and> metrics (fst (healthCheck isAlive s)) = metrics s
   \<and> totalResources (snd (healthCheck isAlive s)) = length (filter isAlive (pool s))
   \<and> deadResourcesRemoved (snd (healthCheck isAlive s))
       = length (filter (\<lambda>r. \<not> isAlive r) (pool s))
   \<and> length (pool (fst (healthCheck isAlive s))) + deadResourcesRemoved (snd (healthCheck isAlive s)) = length (pool s)"
  using sum_length_filter_compl [of isAlive "pool s"]
  by (simp add: healthCheck_def healthCheck_loop_filter)

end
